theory Spec2Isabelle
  imports Main "HOL-Library.Word"
begin

section \<open>The gRPC transport adapter of yab (transport/grpc.go)\<close>

text \<open>
  The adapter talks to collaborators that live outside the repository: the YARPC gRPC
  engine, the file system, the TLS library, the context package and multierr. The model
  keeps the Go code of \<^verbatim>\<open>transport/grpc.go\<close> as it is written and makes its effects
  explicit:
  \<^item> every call to a collaborator is appended to a history of events (oldest first);
  \<^item> what a collaborator answers is read from an environment \<open>env\<close>; an answer may
    depend on the whole history before the call, so the theorems hold for every
    deterministic behaviour of the collaborators (a fake engine included);
  \<^item> a Go result pair \<^verbatim>\<open>(value, error)\<close> is a pair of options, \<open>None\<close> standing for
    \<^verbatim>\<open>nil\<close>;
  \<^item> a pointer that may be \<^verbatim>\<open>nil\<close> is an option, and dereferencing \<open>None\<close> is the
    outcome \<open>Panic\<close>.
\<close>

subsection \<open>Errors\<close>

text \<open>
  A Go \<^verbatim>\<open>error\<close> built by \<^verbatim>\<open>errors.New\<close> or \<^verbatim>\<open>fmt.Errorf\<close> (without \<^verbatim>\<open>%w\<close>) is a
  message; \<open>multiError\<close> is the aggregate of go.uber.org/multierr. Errors answered by the
  collaborators are values of the same type.
\<close>

datatype error = New string | multiError "error list"

fun join_errs :: "string list \<Rightarrow> string" where
  "join_errs [] = []"
| "join_errs [s] = s"
| "join_errs (s # t # ss) = s @ ''; '' @ join_errs (t # ss)"

fun Error :: "error \<Rightarrow> string" where
  "Error (New s) = s"
| "Error (multiError es) = join_errs (map Error es)"

text \<open>Lines 43-49: the package's sentinel errors.\<close>

definition errGRPCNoAddresses :: error where
  "errGRPCNoAddresses = New ''must specify at least one grpc address''"

definition errGRPCNoTracer :: error where
  "errGRPCNoTracer = New ''must specify grpc tracer''"

definition errGRPCNoCaller :: error where
  "errGRPCNoCaller = New ''must specify grpc caller''"

definition errGRPCNoService :: error where
  "errGRPCNoService = New ''must specify grpc service''"

definition errGRPCNoProcedure :: error where
  "errGRPCNoProcedure = New ''must specify grpc procedure''"

text \<open>
  \<^verbatim>\<open>multierr.Combine\<close> of the imported library go.uber.org/multierr, after its
  documentation: \<^verbatim>\<open>nil\<close> arguments are dropped; no error left gives \<^verbatim>\<open>nil\<close>, a single
  error is returned as it is, several are flattened into one aggregate, in order.
  \<^verbatim>\<open>multierr.Errors\<close> lists the errors an error stands for (none for \<^verbatim>\<open>nil\<close>).
\<close>

fun extractErrors :: "error \<Rightarrow> error list" where
  "extractErrors (multiError es) = es"
| "extractErrors e = [e]"

fun multierr_Errors :: "error option \<Rightarrow> error list" where
  "multierr_Errors None = []"
| "multierr_Errors (Some e) = extractErrors e"

fun nonNil :: "error option list \<Rightarrow> error list" where
  "nonNil [] = []"
| "nonNil (None # es) = nonNil es"
| "nonNil (Some e # es) = e # nonNil es"

definition multierr_Combine :: "error option list \<Rightarrow> error option" where
  "multierr_Combine errs =
     (case nonNil errs of
        [] \<Rightarrow> None
      | [e] \<Rightarrow> Some e
      | e # e' # es \<Rightarrow> Some (multiError (concat (map extractErrors (e # e' # es)))))"

subsection \<open>Values of the collaborators\<close>

type_synonym bytes = "8 word list"

text \<open>\<^verbatim>\<open>time.Duration\<close> is an \<^verbatim>\<open>int64\<close> of nanoseconds, read signed.\<close>

type_synonym Duration = "64 word"

definition time_Second :: Duration where
  "time_Second = 1000000000"

datatype Tracer = TracerHandle nat

datatype x509_Certificate = x509_Certificate nat

datatype tls_Certificate = tls_Certificate nat

record tls_Config =
  RootCAs :: "x509_Certificate list"
  Certificates :: "tls_Certificate list"
  InsecureSkipVerify :: bool

datatype TransportOption = grpc_Tracer "Tracer option" | grpc_ClientMaxRecvMsgSize int

datatype DialOption = grpc_DialerTLSConfig tls_Config

text \<open>
  The engine's constructors build values and do no input or output; they are kept as
  constructors, so that a value tells how it was made.
\<close>

datatype grpc_Transport = grpc_NewTransport "TransportOption list"

text \<open>
  An \<^verbatim>\<open>apipeer.Transport\<close> is either the base transport itself or a dialer made from it
  by \<^verbatim>\<open>transport.NewDialer(dialOptions...)\<close>.
\<close>

datatype peer_Transport = BaseTransport grpc_Transport | NewDialer grpc_Transport "DialOption list"

datatype Identifier = hostport_Identify string

datatype roundrobin_List = roundrobin_New peer_Transport

datatype peer_Binder = peer_BindPeers "Identifier list"

datatype peer_BoundChooser = peer_Bind roundrobin_List peer_Binder

datatype grpc_Outbound = NewOutbound grpc_Transport peer_BoundChooser

text \<open>
  A \<^verbatim>\<open>context.Context\<close>: one supplied by the caller, with the deadline its \<^verbatim>\<open>Deadline()\<close>
  reports (if any), or one derived by \<^verbatim>\<open>context.WithTimeout(parent, timeout)\<close>, which
  always has a deadline. Contexts are taken to be non-nil.
\<close>

datatype Context = CallerContext "int option" | WithTimeoutContext Context Duration

fun Deadline_ok :: "Context \<Rightarrow> bool" where
  "Deadline_ok (CallerContext d) = (d \<noteq> None)"
| "Deadline_ok (WithTimeoutContext parent timeout) = True"

datatype CancelFunc = noop_CancelFunc | cancel_of Context

definition context_WithTimeout :: "Context \<Rightarrow> Duration \<Rightarrow> Context \<times> CancelFunc" where
  "context_WithTimeout parent timeout =
     (WithTimeoutContext parent timeout, cancel_of (WithTimeoutContext parent timeout))"

datatype ReadCloser = ReadCloser nat

datatype bytes_Reader = bytes_NewReader bytes

datatype ClientStream = ClientStream nat

text \<open>
  Modelled from the spec: the declarations of \<^verbatim>\<open>transport.Headers\<close> and of the
  repository's \<^verbatim>\<open>Response\<close> are not under src/. The spec's data model gives the headers
  of a \<^verbatim>\<open>Response\<close> as an ordered list of key/value pairs as returned by the wire layer,
  so \<^verbatim>\<open>Items()\<close> of wire headers is such a list.
\<close>

datatype transport_Headers = transport_Headers (Items: "(string \<times> string) list")

record transport_Request =
  Caller :: string
  Service :: string
  Encoding :: string
  Procedure :: string
  Headers :: transport_Headers
  ShardKey :: string
  RoutingKey :: string
  RoutingDelegate :: string
  Body :: bytes_Reader

record transport_RequestMeta =
  Caller :: string
  Service :: string
  Encoding :: string
  Procedure :: string
  Headers :: transport_Headers
  ShardKey :: string
  RoutingKey :: string
  RoutingDelegate :: string

record transport_StreamRequest =
  Meta :: "transport_RequestMeta option"

record transport_Response =
  Headers :: transport_Headers
  Body :: "ReadCloser option"

subsection \<open>The repository's own types\<close>

text \<open>Lines 51-63.\<close>

record GRPCOptions =
  Addresses :: "string list"
  Tracer :: "Tracer option"
  Caller :: string
  Encoding :: string
  RoutingKey :: string
  RoutingDelegate :: string
  MaxResponseSize :: int
  CAPath :: string
  CertPath :: string
  PrivateKeyPath :: string

text \<open>Lines 70-79.\<close>

record grpcTransport =
  Transport :: grpc_Transport
  Outbound :: grpc_Outbound
  StreamOutbound :: grpc_Outbound
  Caller :: string
  Encoding :: string
  RoutingKey :: string
  RoutingDelegate :: string
  tracer :: "Tracer option"

text \<open>
  Modelled from the spec: the declarations of \<^verbatim>\<open>Request\<close>, \<^verbatim>\<open>StreamRequest\<close>,
  \<^verbatim>\<open>Response\<close> and \<^verbatim>\<open>TransportCloser\<close> are in files of the package that are not under
  src/. The fields are those the spec's data model lists and grpc.go reads or writes. A
  \<^verbatim>\<open>nil\<close> byte slice and an empty one are both \<open>[]\<close>.
\<close>

record Request =
  TargetService :: string
  Method :: string
  Headers :: "string \<rightharpoonup> string"
  ShardKey :: string
  Timeout :: Duration
  Body :: bytes

record StreamRequest =
  Request :: "Request option"

record Response =
  Headers :: "(string \<times> string) list"
  Body :: bytes

text \<open>
  The interface \<^verbatim>\<open>TransportCloser\<close> as \<^verbatim>\<open>NewGRPC\<close> returns it: an interface value that
  holds the \<^verbatim>\<open>*grpcTransport\<close> of \<^verbatim>\<open>newGRPC\<close>, which may be the \<^verbatim>\<open>nil\<close> pointer.
\<close>

datatype TransportCloser = TransportCloser "grpcTransport option"

subsection \<open>Events and environment\<close>

text \<open>
  The events are the calls that reach a resource: the construction of the underlying
  transport, of a dialer and of an outbound, the reads of the file system, the starts and
  stops, the calls of the outbound, the reads and the close of a response body, and the
  cancel function of a derived context. The environment gives the answer of each call
  that has one, from the history before the call and the arguments; \<open>pemCertificates\<close>
  (the certificates that a PEM file holds) and \<open>transport_HeadersFromMap\<close> depend on
  their argument only.
\<close>

datatype event =
    EvNewTransport grpc_Transport
  | EvReadFile string
  | EvLoadX509KeyPair string string
  | EvNewDialer peer_Transport
  | EvNewOutbound grpc_Outbound
  | EvTransportStart grpc_Transport
  | EvOutboundStart grpc_Outbound
  | EvTransportStop grpc_Transport
  | EvOutboundStop grpc_Outbound
  | EvCall grpc_Outbound Context transport_Request
  | EvCallStream grpc_Outbound Context "transport_StreamRequest option"
  | EvReadAll ReadCloser
  | EvClose ReadCloser
  | EvCancel Context

record env =
  ioutil_ReadFile :: "event list \<Rightarrow> string \<Rightarrow> bytes \<times> error option"
  pemCertificates :: "bytes \<Rightarrow> x509_Certificate list"
  tls_LoadX509KeyPair :: "event list \<Rightarrow> string \<Rightarrow> string \<Rightarrow> tls_Certificate \<times> error option"
  Transport_Start :: "event list \<Rightarrow> grpc_Transport \<Rightarrow> error option"
  Transport_Stop :: "event list \<Rightarrow> grpc_Transport \<Rightarrow> error option"
  Outbound_Start :: "event list \<Rightarrow> grpc_Outbound \<Rightarrow> error option"
  Outbound_Stop :: "event list \<Rightarrow> grpc_Outbound \<Rightarrow> error option"
  Outbound_Call :: "event list \<Rightarrow> grpc_Outbound \<Rightarrow> Context \<Rightarrow> transport_Request
                      \<Rightarrow> transport_Response option \<times> error option"
  Outbound_CallStream :: "event list \<Rightarrow> grpc_Outbound \<Rightarrow> Context
                      \<Rightarrow> transport_StreamRequest option \<Rightarrow> ClientStream option \<times> error option"
  ioutil_ReadAll :: "event list \<Rightarrow> ReadCloser \<Rightarrow> bytes \<times> error option"
  Body_Close :: "event list \<Rightarrow> ReadCloser \<Rightarrow> error option"
  transport_HeadersFromMap :: "(string \<rightharpoonup> string) \<Rightarrow> transport_Headers"

datatype 'a outcome = Panic | Return 'a

text \<open>
  \<^verbatim>\<open>x509.NewCertPool\<close> and \<^verbatim>\<open>AppendCertsFromPEM\<close> of the standard library: the pool is
  the list of its certificates; appending adds the certificates parsed from the PEM bytes
  and reports whether there was at least one.
\<close>

definition x509_NewCertPool :: "x509_Certificate list" where
  "x509_NewCertPool = []"

definition AppendCertsFromPEM ::
  "env \<Rightarrow> x509_Certificate list \<Rightarrow> bytes \<Rightarrow> x509_Certificate list \<times> bool" where
  "AppendCertsFromPEM env certPool pemCerts =
     (certPool @ pemCertificates env pemCerts, pemCertificates env pemCerts \<noteq> [])"

subsection \<open>The functions of grpc.go\<close>

text \<open>Lines 241-247.\<close>

fun peersToIdentifiers :: "string list \<Rightarrow> Identifier list" where
  "peersToIdentifiers [] = []"
| "peersToIdentifiers (peer # peers) = hostport_Identify peer # peersToIdentifiers peers"

text \<open>Lines 92-95 of \<^verbatim>\<open>newGRPC\<close>: the options of the underlying transport.\<close>

definition newGRPC_transportOptions :: "GRPCOptions \<Rightarrow> TransportOption list" where
  "newGRPC_transportOptions options =
     (let transportOptions = [grpc_Tracer (Tracer options)]
      in if MaxResponseSize options > 0
         then transportOptions @ [grpc_ClientMaxRecvMsgSize (MaxResponseSize options)]
         else transportOptions)"

text \<open>
  Lines 82-125 of \<^verbatim>\<open>newGRPC\<close>: validation, the underlying transport, the peer transport
  (a TLS dialer in secure mode) and the outbound. \<open>Inl\<close> is an early \<^verbatim>\<open>return nil, err\<close>.
\<close>

definition newGRPC_build ::
  "env \<Rightarrow> GRPCOptions \<Rightarrow> event list
     \<Rightarrow> (error + grpc_Transport \<times> grpc_Outbound) \<times> event list" where
  "newGRPC_build env options h =
     (if length (Addresses options) = 0 then (Inl errGRPCNoAddresses, h)
      else if Tracer options = None then (Inl errGRPCNoTracer, h)
      else if GRPCOptions.Caller options = [] then (Inl errGRPCNoCaller, h)
      else
        let transport = grpc_NewTransport (newGRPC_transportOptions options);
            h1 = h @ [EvNewTransport transport]
        in if CAPath options \<noteq> [] \<and> CertPath options \<noteq> [] \<and> PrivateKeyPath options \<noteq> []
           then
             (case ioutil_ReadFile env h1 (CAPath options) of
                (ca, Some err) \<Rightarrow>
                  (Inl (New (''could not load ca '' @ Error err)), h1 @ [EvReadFile (CAPath options)])
              | (ca, None) \<Rightarrow>
                  let h2 = h1 @ [EvReadFile (CAPath options)]
                  in (case AppendCertsFromPEM env x509_NewCertPool ca of
                        (certPool, False) \<Rightarrow> (Inl (New ''failed to append ca''), h2)
                      | (certPool, True) \<Rightarrow>
                          let h3 = h2 @ [EvLoadX509KeyPair (CertPath options) (PrivateKeyPath options)]
                          in (case tls_LoadX509KeyPair env h2 (CertPath options) (PrivateKeyPath options) of
                                (clientCert, Some err) \<Rightarrow>
                                  (Inl (New (''failed to load X509 keypair '' @ Error err)), h3)
                              | (clientCert, None) \<Rightarrow>
                                  let dialOptions =
                                        [grpc_DialerTLSConfig
                                           \<lparr>RootCAs = certPool,
                                            Certificates = [clientCert],
                                            InsecureSkipVerify = True\<rparr>];
                                      peerTransport = NewDialer transport dialOptions;
                                      outbound =
                                        NewOutbound transport
                                          (peer_Bind (roundrobin_New peerTransport)
                                             (peer_BindPeers (peersToIdentifiers (Addresses options))))
                                  in (Inr (transport, outbound),
                                      h3 @ [EvNewDialer peerTransport, EvNewOutbound outbound]))))
           else
             let peerTransport = BaseTransport transport;
                 outbound =
                   NewOutbound transport
                     (peer_Bind (roundrobin_New peerTransport)
                        (peer_BindPeers (peersToIdentifiers (Addresses options))))
             in (Inr (transport, outbound), h1 @ [EvNewOutbound outbound]))"

text \<open>
  Lines 127-145 of \<^verbatim>\<open>newGRPC\<close>: start the transport, then the outbound; the result of
  the \<^verbatim>\<open>transport.Stop()\<close> after a failed outbound start is discarded.
\<close>

definition newGRPC_start ::
  "env \<Rightarrow> GRPCOptions \<Rightarrow> grpc_Transport \<Rightarrow> grpc_Outbound \<Rightarrow> event list
     \<Rightarrow> (grpcTransport option \<times> error option) \<times> event list" where
  "newGRPC_start env options transport outbound h =
     (case Transport_Start env h transport of
        Some err \<Rightarrow> ((None, Some err), h @ [EvTransportStart transport])
      | None \<Rightarrow>
          let h1 = h @ [EvTransportStart transport]
          in (case Outbound_Start env h1 outbound of
                Some err \<Rightarrow>
                  let h2 = h1 @ [EvOutboundStart outbound];
                      discarded = Transport_Stop env h2 transport
                  in ((None, Some err), h2 @ [EvTransportStop transport])
              | None \<Rightarrow>
                  ((Some \<lparr>Transport = transport,
                          Outbound = outbound,
                          StreamOutbound = outbound,
                          grpcTransport.Caller = GRPCOptions.Caller options,
                          grpcTransport.Encoding = GRPCOptions.Encoding options,
                          grpcTransport.RoutingKey = GRPCOptions.RoutingKey options,
                          grpcTransport.RoutingDelegate = GRPCOptions.RoutingDelegate options,
                          tracer = Tracer options\<rparr>,
                    None),
                   h1 @ [EvOutboundStart outbound])))"

text \<open>Lines 81-145.\<close>

definition newGRPC ::
  "env \<Rightarrow> GRPCOptions \<Rightarrow> event list \<Rightarrow> (grpcTransport option \<times> error option) \<times> event list" where
  "newGRPC env options h =
     (case newGRPC_build env options h of
        (Inl err, h') \<Rightarrow> ((None, Some err), h')
      | (Inr (transport, outbound), h') \<Rightarrow> newGRPC_start env options transport outbound h')"

text \<open>
  Lines 66-68: the \<^verbatim>\<open>*grpcTransport\<close> of \<^verbatim>\<open>newGRPC\<close> is returned as a
  \<^verbatim>\<open>TransportCloser\<close>.
\<close>

definition NewGRPC ::
  "env \<Rightarrow> GRPCOptions \<Rightarrow> event list \<Rightarrow> (TransportCloser \<times> error option) \<times> event list" where
  "NewGRPC env options h =
     (case newGRPC env options h of ((t, err), h') \<Rightarrow> ((TransportCloser t, err), h'))"

text \<open>Lines 213-222.\<close>

definition requestContextWithTimeout ::
  "Context \<Rightarrow> Request option \<Rightarrow> (Context \<times> CancelFunc) outcome" where
  "requestContextWithTimeout ctx request =
     (if Deadline_ok ctx then Return (ctx, noop_CancelFunc)
      else (case request of
              None \<Rightarrow> Panic
            | Some r \<Rightarrow>
                let timeout = time_Second;
                    timeout = (if 0 < sint (Timeout r) then Timeout r else timeout)
                in Return (context_WithTimeout ctx timeout)))"

text \<open>Lines 199-211.\<close>

definition requestToYARPCRequest ::
  "env \<Rightarrow> grpcTransport option \<Rightarrow> Request option \<Rightarrow> transport_Request outcome" where
  "requestToYARPCRequest env t request =
     (case t of
        None \<Rightarrow> Panic
      | Some tr \<Rightarrow>
          (case request of
             None \<Rightarrow> Panic
           | Some r \<Rightarrow>
               Return \<lparr>transport_Request.Caller = grpcTransport.Caller tr,
                       transport_Request.Service = TargetService r,
                       transport_Request.Encoding = grpcTransport.Encoding tr,
                       transport_Request.Procedure = Method r,
                       transport_Request.Headers = transport_HeadersFromMap env (Request.Headers r),
                       transport_Request.ShardKey = Request.ShardKey r,
                       transport_Request.RoutingKey = grpcTransport.RoutingKey tr,
                       transport_Request.RoutingDelegate = grpcTransport.RoutingDelegate tr,
                       transport_Request.Body = bytes_NewReader (Request.Body r)\<rparr>))"

text \<open>Lines 180-197. The result is a pointer: \<open>None\<close> is \<^verbatim>\<open>nil\<close>.\<close>

definition requestToYARPCStreamRequest ::
  "env \<Rightarrow> grpcTransport option \<Rightarrow> StreamRequest option \<Rightarrow> transport_StreamRequest option" where
  "requestToYARPCStreamRequest env t streamRequest =
     (case t of
        None \<Rightarrow> None
      | Some tr \<Rightarrow>
          (case streamRequest of
             None \<Rightarrow> None
           | Some sr \<Rightarrow>
               (case Request sr of
                  None \<Rightarrow> None
                | Some r \<Rightarrow>
                    Some \<lparr>Meta =
                      Some \<lparr>transport_RequestMeta.Caller = grpcTransport.Caller tr,
                            transport_RequestMeta.Service = TargetService r,
                            transport_RequestMeta.Encoding = grpcTransport.Encoding tr,
                            transport_RequestMeta.Procedure = Method r,
                            transport_RequestMeta.Headers =
                              transport_HeadersFromMap env (Request.Headers r),
                            transport_RequestMeta.ShardKey = Request.ShardKey r,
                            transport_RequestMeta.RoutingKey = grpcTransport.RoutingKey tr,
                            transport_RequestMeta.RoutingDelegate =
                              grpcTransport.RoutingDelegate tr\<rparr>\<rparr>)))"

text \<open>Lines 224-239.\<close>

definition yarpcResponseToResponse ::
  "env \<Rightarrow> transport_Response option \<Rightarrow> event list
     \<Rightarrow> (Response option \<times> error option) outcome \<times> event list" where
  "yarpcResponseToResponse env transportResponse h =
     (case transportResponse of
        None \<Rightarrow> (Panic, h)
      | Some tr \<Rightarrow>
          let response = \<lparr>Response.Headers = Items (transport_Response.Headers tr),
                          Response.Body = []\<rparr>
          in (case transport_Response.Body tr of
                None \<Rightarrow> (Return (Some response, None), h)
              | Some stream \<Rightarrow>
                  (case ioutil_ReadAll env h stream of
                     (body, Some err) \<Rightarrow> (Return (None, Some err), h @ [EvReadAll stream])
                   | (body, None) \<Rightarrow>
                       let h1 = h @ [EvReadAll stream]
                       in (case Body_Close env h1 stream of
                             Some err \<Rightarrow> (Return (None, Some err), h1 @ [EvClose stream])
                           | None \<Rightarrow>
                               (Return (Some (response\<lparr>Response.Body := body\<rparr>), None),
                                h1 @ [EvClose stream])))))"

text \<open>The deferred \<^verbatim>\<open>cancel()\<close> of \<^verbatim>\<open>Call\<close> (line 164) runs when \<^verbatim>\<open>Call\<close> leaves.\<close>

fun run_cancel :: "CancelFunc \<Rightarrow> event list \<Rightarrow> event list" where
  "run_cancel noop_CancelFunc h = h"
| "run_cancel (cancel_of ctx) h = h @ [EvCancel ctx]"

text \<open>Lines 155-170.\<close>

definition Call ::
  "env \<Rightarrow> grpcTransport option \<Rightarrow> Context \<Rightarrow> Request option \<Rightarrow> event list
     \<Rightarrow> (Response option \<times> error option) outcome \<times> event list" where
  "Call env t ctx request h =
     (case request of
        None \<Rightarrow> (Panic, h)
      | Some r \<Rightarrow>
          if TargetService r = [] then (Return (None, Some errGRPCNoService), h)
          else if Method r = [] then (Return (None, Some errGRPCNoProcedure), h)
          else
            (case requestContextWithTimeout ctx request of
               Panic \<Rightarrow> (Panic, h)
             | Return (ctx', cancel) \<Rightarrow>
                 (case
                    (case t of
                       None \<Rightarrow> (Panic, h)
                     | Some tr \<Rightarrow>
                         (case requestToYARPCRequest env t request of
                            Panic \<Rightarrow> (Panic, h)
                          | Return yarpcRequest \<Rightarrow>
                              (case Outbound_Call env h (Outbound tr) ctx' yarpcRequest of
                                 (transportResponse, Some err) \<Rightarrow>
                                   (Return (None, Some err),
                                    h @ [EvCall (Outbound tr) ctx' yarpcRequest])
                               | (transportResponse, None) \<Rightarrow>
                                   yarpcResponseToResponse env transportResponse
                                     (h @ [EvCall (Outbound tr) ctx' yarpcRequest]))))
                  of (result, h') \<Rightarrow> (result, run_cancel cancel h'))))"

text \<open>Lines 172-174.\<close>

definition CallStream ::
  "env \<Rightarrow> grpcTransport option \<Rightarrow> Context \<Rightarrow> StreamRequest option \<Rightarrow> event list
     \<Rightarrow> (ClientStream option \<times> error option) outcome \<times> event list" where
  "CallStream env t ctx request h =
     (case t of
        None \<Rightarrow> (Panic, h)
      | Some tr \<Rightarrow>
          let yarpcRequest = requestToYARPCStreamRequest env t request
          in (Return (Outbound_CallStream env h (StreamOutbound tr) ctx yarpcRequest),
              h @ [EvCallStream (StreamOutbound tr) ctx yarpcRequest]))"

text \<open>Lines 176-178: both arguments of \<^verbatim>\<open>multierr.Combine\<close> are evaluated, left to right.\<close>

definition Close :: "env \<Rightarrow> grpcTransport option \<Rightarrow> event list \<Rightarrow> error option outcome \<times> event list" where
  "Close env t h =
     (case t of
        None \<Rightarrow> (Panic, h)
      | Some tr \<Rightarrow>
          let err1 = Transport_Stop env h (Transport tr);
              h1 = h @ [EvTransportStop (Transport tr)];
              err2 = Outbound_Stop env h1 (Outbound tr);
              h2 = h1 @ [EvOutboundStop (Outbound tr)]
          in (Return (multierr_Combine [err1, err2]), h2))"

subsection \<open>A fake engine for concrete runs\<close>

text \<open>
  A small deterministic environment: the file \<open>ca.pem\<close> holds one certificate,
  \<open>bad.pem\<close> holds none, any other file is missing; the pair \<open>c.pem\<close>/\<open>k.pem\<close> loads;
  starts and stops succeed unless the flags say otherwise; a call to service \<open>down\<close>
  fails, any other is answered with two headers and a three-byte body.
\<close>

definition fake :: "bool \<Rightarrow> bool \<Rightarrow> bool \<Rightarrow> bool \<Rightarrow> env" where
  "fake failTStart failOStart failTStop failOStop =
     \<lparr>ioutil_ReadFile = (\<lambda>h p.
          if p = ''ca.pem'' then ([1, 2, 3], None)
          else if p = ''bad.pem'' then ([9], None)
          else ([], Some (New ''no such file''))),
      pemCertificates = (\<lambda>b. if b = [1, 2, 3] then [x509_Certificate 7] else []),
      tls_LoadX509KeyPair = (\<lambda>h c k.
          if c = ''c.pem'' \<and> k = ''k.pem'' then (tls_Certificate 5, None)
          else (tls_Certificate 0, Some (New ''bad pair''))),
      Transport_Start = (\<lambda>h t. if failTStart then Some (New ''transport start'') else None),
      Transport_Stop = (\<lambda>h t. if failTStop then Some (New ''transport stop'') else None),
      Outbound_Start = (\<lambda>h ob. if failOStart then Some (New ''outbound start'') else None),
      Outbound_Stop = (\<lambda>h ob. if failOStop then Some (New ''outbound stop'') else None),
      Outbound_Call = (\<lambda>h ob c r.
          if transport_Request.Service r = ''down'' then (None, Some (New ''unavailable''))
          else (Some \<lparr>transport_Response.Headers =
                         transport_Headers [(''a'', ''1''), (''b'', ''2'')],
                       transport_Response.Body = Some (ReadCloser 1)\<rparr>, None)),
      Outbound_CallStream = (\<lambda>h ob c r.
          case r of None \<Rightarrow> (None, Some (New ''no request'')) | Some s \<Rightarrow> (Some (ClientStream 1), None)),
      ioutil_ReadAll = (\<lambda>h b.
          if b = ReadCloser 1 then ([10, 20, 30], None) else ([10], Some (New ''read''))),
      Body_Close = (\<lambda>h b. if b = ReadCloser 1 then None else Some (New ''close'')),
      transport_HeadersFromMap = (\<lambda>m. transport_Headers [])\<rparr>"

definition opts :: GRPCOptions where
  "opts = \<lparr>Addresses = [''a:1'', ''b:2''], Tracer = Some (TracerHandle 0),
           GRPCOptions.Caller = ''svc'', GRPCOptions.Encoding = ''proto'',
           GRPCOptions.RoutingKey = [], GRPCOptions.RoutingDelegate = [],
           MaxResponseSize = 0, CAPath = [], CertPath = [], PrivateKeyPath = []\<rparr>"

definition req :: Request where
  "req = \<lparr>TargetService = ''echo'', Method = ''Ping'', Request.Headers = Map.empty,
          Request.ShardKey = [], Timeout = 0, Request.Body = [1, 2]\<rparr>"

definition secure_opts :: GRPCOptions where
  "secure_opts = opts\<lparr>CAPath := ''ca.pem'', CertPath := ''c.pem'', PrivateKeyPath := ''k.pem''\<rparr>"

definition transport0 :: grpc_Transport where
  "transport0 = grpc_NewTransport [grpc_Tracer (Some (TracerHandle 0))]"

definition outbound0 :: grpc_Outbound where
  "outbound0 =
     NewOutbound transport0
       (peer_Bind (roundrobin_New (BaseTransport transport0))
          (peer_BindPeers [hostport_Identify ''a:1'', hostport_Identify ''b:2'']))"

definition tr0 :: grpcTransport where
  "tr0 = \<lparr>Transport = transport0, Outbound = outbound0, StreamOutbound = outbound0,
          grpcTransport.Caller = ''svc'', grpcTransport.Encoding = ''proto'',
          grpcTransport.RoutingKey = [], grpcTransport.RoutingDelegate = [],
          tracer = Some (TracerHandle 0)\<rparr>"

section \<open>Properties\<close>

subsection \<open>Histories only grow\<close>

lemma yarpcResponseToResponse_extends:
  "\<exists>rest. snd (yarpcResponseToResponse env x h) = h @ rest"
  by (auto simp: yarpcResponseToResponse_def Let_def split: option.splits prod.splits)

lemma run_cancel_extends: "\<exists>rest. run_cancel c h = h @ rest"
  by (cases c) simp_all

text \<open>
  A request that passes validation reaches the outbound: the first new event is the call,
  made with the context that \<open>requestContextWithTimeout\<close> returned.
\<close>

lemma Call_reaches_outbound:
  assumes "TargetService r \<noteq> []" and "Method r \<noteq> []"
    and "requestContextWithTimeout ctx (Some r) = Return (ctx', cancel)"
  shows "\<exists>y rest. requestToYARPCRequest env (Some t) (Some r) = Return y \<and>
           snd (Call env (Some t) ctx (Some r) h) = h @ EvCall (Outbound t) ctx' y # rest"
proof -
  obtain y where y: "requestToYARPCRequest env (Some t) (Some r) = Return y"
    by (simp add: requestToYARPCRequest_def)
  obtain resp err where oc: "Outbound_Call env h (Outbound t) ctx' y = (resp, err)"
    by (cases "Outbound_Call env h (Outbound t) ctx' y")
  let ?h1 = "h @ [EvCall (Outbound t) ctx' y]"
  obtain r1 where r1: "snd (yarpcResponseToResponse env resp ?h1) = ?h1 @ r1"
    using yarpcResponseToResponse_extends by blast
  obtain res hh where rr: "yarpcResponseToResponse env resp ?h1 = (res, hh)"
    by (cases "yarpcResponseToResponse env resp ?h1")
  have hh: "hh = ?h1 @ r1" using r1 rr by simp
  obtain r2 r3 where r2: "run_cancel cancel ?h1 = ?h1 @ r2" and r3: "run_cancel cancel hh = hh @ r3"
    using run_cancel_extends by blast
  have "snd (Call env (Some t) ctx (Some r) h) = ?h1 @ r2 \<or>
        snd (Call env (Some t) ctx (Some r) h) = hh @ r3"
    using assms y oc rr r2 r3 by (cases err) (simp_all add: Call_def)
  then show ?thesis using y hh by auto
qed

subsection \<open>Timeout derivation\<close>

text \<open>
  Claim C1. In a unary \<open>Call\<close> whose request passes validation, the context handed to the
  outbound is: the caller's context itself, with the no-op cancel function, when that
  context already has a deadline, whatever \<open>Timeout\<close> the request has; otherwise the
  caller's context under \<^verbatim>\<open>context.WithTimeout\<close> with the request's \<open>Timeout\<close> when that
  is positive, and with \<open>time_Second\<close> (one second, 1000000000 ns) when it is zero or
  negative.
\<close>

theorem Call_timeout_policy:
  assumes "TargetService r \<noteq> []" and "Method r \<noteq> []"
  shows "(Deadline_ok ctx \<longrightarrow>
            requestContextWithTimeout ctx (Some r) = Return (ctx, noop_CancelFunc) \<and>
            (\<exists>y rest. snd (Call env (Some t) ctx (Some r) h) =
               h @ EvCall (Outbound t) ctx y # rest)) \<and>
         (\<not> Deadline_ok ctx \<and> 0 < sint (Timeout r) \<longrightarrow>
            requestContextWithTimeout ctx (Some r) =
              Return (context_WithTimeout ctx (Timeout r)) \<and>
            (\<exists>y rest. snd (Call env (Some t) ctx (Some r) h) =
               h @ EvCall (Outbound t) (WithTimeoutContext ctx (Timeout r)) y # rest)) \<and>
         (\<not> Deadline_ok ctx \<and> sint (Timeout r) \<le> 0 \<longrightarrow>
            requestContextWithTimeout ctx (Some r) =
              Return (context_WithTimeout ctx time_Second) \<and>
            (\<exists>y rest. snd (Call env (Some t) ctx (Some r) h) =
               h @ EvCall (Outbound t) (WithTimeoutContext ctx time_Second) y # rest)) \<and>
         sint time_Second = 1000000000"
proof (intro conjI impI)
  assume d: "Deadline_ok ctx"
  then show a: "requestContextWithTimeout ctx (Some r) = Return (ctx, noop_CancelFunc)"
    by (simp add: requestContextWithTimeout_def)
  from Call_reaches_outbound [OF assms a]
  show "\<exists>y rest. snd (Call env (Some t) ctx (Some r) h) = h @ EvCall (Outbound t) ctx y # rest"
    by blast
next
  assume d: "\<not> Deadline_ok ctx \<and> 0 < sint (Timeout r)"
  then show a: "requestContextWithTimeout ctx (Some r) =
      Return (context_WithTimeout ctx (Timeout r))"
    by (simp add: requestContextWithTimeout_def)
  then have "requestContextWithTimeout ctx (Some r) =
      Return (WithTimeoutContext ctx (Timeout r), cancel_of (WithTimeoutContext ctx (Timeout r)))"
    by (simp add: context_WithTimeout_def)
  from Call_reaches_outbound [OF assms this]
  show "\<exists>y rest. snd (Call env (Some t) ctx (Some r) h) =
               h @ EvCall (Outbound t) (WithTimeoutContext ctx (Timeout r)) y # rest"
    by blast
next
  assume d: "\<not> Deadline_ok ctx \<and> sint (Timeout r) \<le> 0"
  then show a: "requestContextWithTimeout ctx (Some r) =
      Return (context_WithTimeout ctx time_Second)"
    by (simp add: requestContextWithTimeout_def)
  then have "requestContextWithTimeout ctx (Some r) =
      Return (WithTimeoutContext ctx time_Second, cancel_of (WithTimeoutContext ctx time_Second))"
    by (simp add: context_WithTimeout_def)
  from Call_reaches_outbound [OF assms this]
  show "\<exists>y rest. snd (Call env (Some t) ctx (Some r) h) =
               h @ EvCall (Outbound t) (WithTimeoutContext ctx time_Second) y # rest"
    by blast
next
  show "sint time_Second = 1000000000" by (simp add: time_Second_def)
qed

theorem Call_timeout_policy_witness:
  "TargetService req \<noteq> [] \<and> Method req \<noteq> [] \<and>
   Deadline_ok (CallerContext (Some 42)) \<and>
   requestContextWithTimeout (CallerContext (Some 42)) (Some (req\<lparr>Timeout := - 7\<rparr>)) =
     Return (CallerContext (Some 42), noop_CancelFunc) \<and>
   \<not> Deadline_ok (CallerContext None) \<and> 0 < sint (Timeout (req\<lparr>Timeout := 7\<rparr>)) \<and>
   requestContextWithTimeout (CallerContext None) (Some (req\<lparr>Timeout := 7\<rparr>)) =
     Return (context_WithTimeout (CallerContext None) 7) \<and>
   sint (Timeout req) \<le> 0 \<and>
   requestContextWithTimeout (CallerContext None) (Some req) =
     Return (context_WithTimeout (CallerContext None) time_Second) \<and>
   (\<exists>y rest. snd (Call (fake False False False False) (Some tr0) (CallerContext None) (Some req) []) =
      [] @ EvCall (Outbound tr0) (WithTimeoutContext (CallerContext None) time_Second) y # rest)"
proof -
  have v: "TargetService req \<noteq> []" "Method req \<noteq> []"
    by (simp_all add: req_def)
  have v': "TargetService (req\<lparr>Timeout := x\<rparr>) \<noteq> []" "Method (req\<lparr>Timeout := x\<rparr>) \<noteq> []" for x
    by (simp_all add: req_def)
  have t: "sint (Timeout req) \<le> 0" "0 < sint (Timeout (req\<lparr>Timeout := 7\<rparr>))"
    by (simp_all add: req_def)
  show ?thesis
    using v t
      Call_timeout_policy [OF v'(1) v'(2), of "CallerContext (Some 42)" "- 7"
        "fake False False False False" tr0 "[]"]
      Call_timeout_policy [OF v'(1) v'(2), of "CallerContext None" 7
        "fake False False False False" tr0 "[]"]
      Call_timeout_policy [OF v, of "CallerContext None" "fake False False False False" tr0 "[]"]
    by simp
qed

subsection \<open>Validation of the options\<close>

text \<open>
  Claim C2. \<open>newGRPC\<close> checks the options in a fixed order: an empty address list
  gives \<open>errGRPCNoAddresses\<close> whatever the tracer and the caller are; with addresses,
  a \<^verbatim>\<open>nil\<close> tracer gives \<open>errGRPCNoTracer\<close> whatever the caller is; with addresses and
  a tracer, an empty caller gives \<open>errGRPCNoCaller\<close>. Each time the transport pointer is
  \<^verbatim>\<open>nil\<close> (through \<open>NewGRPC\<close>, the \<^verbatim>\<open>nil\<close> pointer inside the returned interface value)
  and the history is unchanged: nothing was constructed or started. The three errors are
  pairwise distinct and their messages name the missing field.
\<close>

theorem newGRPC_validation_order:
  "(Addresses options = [] \<longrightarrow>
      newGRPC env options h = ((None, Some errGRPCNoAddresses), h) \<and>
      NewGRPC env options h = ((TransportCloser None, Some errGRPCNoAddresses), h)) \<and>
   (Addresses options \<noteq> [] \<and> Tracer options = None \<longrightarrow>
      newGRPC env options h = ((None, Some errGRPCNoTracer), h) \<and>
      NewGRPC env options h = ((TransportCloser None, Some errGRPCNoTracer), h)) \<and>
   (Addresses options \<noteq> [] \<and> Tracer options \<noteq> None \<and> GRPCOptions.Caller options = [] \<longrightarrow>
      newGRPC env options h = ((None, Some errGRPCNoCaller), h) \<and>
      NewGRPC env options h = ((TransportCloser None, Some errGRPCNoCaller), h)) \<and>
   distinct [errGRPCNoAddresses, errGRPCNoTracer, errGRPCNoCaller] \<and>
   Error errGRPCNoAddresses = ''must specify at least one grpc address'' \<and>
   Error errGRPCNoTracer = ''must specify grpc tracer'' \<and>
   Error errGRPCNoCaller = ''must specify grpc caller''"
  by (simp add: NewGRPC_def newGRPC_def newGRPC_build_def errGRPCNoAddresses_def
      errGRPCNoTracer_def errGRPCNoCaller_def)

theorem newGRPC_validation_order_witness:
  "Addresses (opts\<lparr>Addresses := [], Tracer := None, GRPCOptions.Caller := []\<rparr>) = [] \<and>
   newGRPC (fake False False False False)
     (opts\<lparr>Addresses := [], Tracer := None, GRPCOptions.Caller := []\<rparr>) [] =
     ((None, Some errGRPCNoAddresses), []) \<and>
   Addresses (opts\<lparr>Tracer := None, GRPCOptions.Caller := []\<rparr>) \<noteq> [] \<and>
   Tracer (opts\<lparr>Tracer := None, GRPCOptions.Caller := []\<rparr>) = None \<and>
   newGRPC (fake False False False False) (opts\<lparr>Tracer := None, GRPCOptions.Caller := []\<rparr>) [] =
     ((None, Some errGRPCNoTracer), []) \<and>
   Addresses (opts\<lparr>GRPCOptions.Caller := []\<rparr>) \<noteq> [] \<and>
   Tracer (opts\<lparr>GRPCOptions.Caller := []\<rparr>) \<noteq> None \<and>
   GRPCOptions.Caller (opts\<lparr>GRPCOptions.Caller := []\<rparr>) = [] \<and>
   NewGRPC (fake False False False False) (opts\<lparr>GRPCOptions.Caller := []\<rparr>) [] =
     ((TransportCloser None, Some errGRPCNoCaller), [])"
proof -
  have a: "Addresses (opts\<lparr>Addresses := [], Tracer := None, GRPCOptions.Caller := []\<rparr>) = []"
    by simp
  have b: "Addresses (opts\<lparr>Tracer := None, GRPCOptions.Caller := []\<rparr>) \<noteq> [] \<and>
           Tracer (opts\<lparr>Tracer := None, GRPCOptions.Caller := []\<rparr>) = None"
    by (simp add: opts_def)
  have c: "Addresses (opts\<lparr>GRPCOptions.Caller := []\<rparr>) \<noteq> [] \<and>
           Tracer (opts\<lparr>GRPCOptions.Caller := []\<rparr>) \<noteq> None \<and>
           GRPCOptions.Caller (opts\<lparr>GRPCOptions.Caller := []\<rparr>) = []"
    by (simp add: opts_def)
  show ?thesis
    using a b c
      newGRPC_validation_order [of "opts\<lparr>Addresses := [], Tracer := None, GRPCOptions.Caller := []\<rparr>"
        "fake False False False False" "[]"]
      newGRPC_validation_order [of "opts\<lparr>Tracer := None, GRPCOptions.Caller := []\<rparr>"
        "fake False False False False" "[]"]
      newGRPC_validation_order [of "opts\<lparr>GRPCOptions.Caller := []\<rparr>"
        "fake False False False False" "[]"]
    by simp
qed

subsection \<open>Validation of a unary call\<close>

text \<open>
  Claim C3. For any receiver, context and environment, \<open>Call\<close> on a request with an
  empty \<open>TargetService\<close> returns a \<^verbatim>\<open>nil\<close> response with \<open>errGRPCNoService\<close>; on a
  request with a service but an empty \<open>Method\<close> it returns a \<^verbatim>\<open>nil\<close> response with
  \<open>errGRPCNoProcedure\<close>. The two errors differ, the service is checked first, and the
  history is unchanged: the outbound is not invoked.
\<close>

theorem Call_validation:
  "(TargetService r = [] \<longrightarrow>
      Call env t ctx (Some r) h = (Return (None, Some errGRPCNoService), h)) \<and>
   (TargetService r \<noteq> [] \<and> Method r = [] \<longrightarrow>
      Call env t ctx (Some r) h = (Return (None, Some errGRPCNoProcedure), h)) \<and>
   errGRPCNoService \<noteq> errGRPCNoProcedure \<and>
   Error errGRPCNoService = ''must specify grpc service'' \<and>
   Error errGRPCNoProcedure = ''must specify grpc procedure''"
  by (simp add: Call_def errGRPCNoService_def errGRPCNoProcedure_def)

theorem Call_validation_witness:
  "TargetService (req\<lparr>TargetService := [], Method := []\<rparr>) = [] \<and>
   Call (fake False False False False) (Some tr0) (CallerContext None)
     (Some (req\<lparr>TargetService := [], Method := []\<rparr>)) [] =
     (Return (None, Some errGRPCNoService), []) \<and>
   TargetService (req\<lparr>Method := []\<rparr>) \<noteq> [] \<and> Method (req\<lparr>Method := []\<rparr>) = [] \<and>
   Call (fake False False False False) (Some tr0) (CallerContext None)
     (Some (req\<lparr>Method := []\<rparr>)) [] =
     (Return (None, Some errGRPCNoProcedure), [])"
proof -
  have a: "TargetService (req\<lparr>TargetService := [], Method := []\<rparr>) = []"
    by simp
  have b: "TargetService (req\<lparr>Method := []\<rparr>) \<noteq> [] \<and> Method (req\<lparr>Method := []\<rparr>) = []"
    by (simp add: req_def)
  show ?thesis
    using a b
      Call_validation [of "req\<lparr>TargetService := [], Method := []\<rparr>"
        "fake False False False False" "Some tr0" "CallerContext None" "[]"]
      Call_validation [of "req\<lparr>Method := []\<rparr>"
        "fake False False False False" "Some tr0" "CallerContext None" "[]"]
    by simp
qed

subsection \<open>Secure mode\<close>

lemma transportOptions_opts:
  "grpc_NewTransport (newGRPC_transportOptions opts) = transport0"
  "grpc_NewTransport (newGRPC_transportOptions secure_opts) = transport0"
  by (simp_all add: newGRPC_transportOptions_def opts_def secure_opts_def transport0_def)

lemma opts_fields:
  "Addresses opts = [''a:1'', ''b:2'']" "Tracer opts = Some (TracerHandle 0)"
  "GRPCOptions.Caller opts = ''svc''" "CAPath opts = []" "CertPath opts = []"
  "PrivateKeyPath opts = []"
  by (simp_all add: opts_def)

lemma secure_opts_fields:
  "Addresses secure_opts = [''a:1'', ''b:2'']" "Tracer secure_opts = Some (TracerHandle 0)"
  "GRPCOptions.Caller secure_opts = ''svc''" "CAPath secure_opts = ''ca.pem''"
  "CertPath secure_opts = ''c.pem''" "PrivateKeyPath secure_opts = ''k.pem''"
  by (simp_all add: opts_def secure_opts_def)

text \<open>
  Claim C4. With valid options whose three TLS paths are all non-empty, a CA file that is
  read without error and holds at least one certificate, and a client key pair that loads:
  \<open>newGRPC\<close> makes a dialer from one TLS configuration whose \<open>RootCAs\<close> are exactly
  the certificates parsed from the CA bytes, whose \<open>Certificates\<close> are exactly the
  loaded key pair, and whose \<open>InsecureSkipVerify\<close> is true; the outbound is built on
  that dialer, and construction goes on to the start phase with it.
\<close>

theorem newGRPC_secure_mode_tls_config:
  assumes "Addresses options \<noteq> []" and "Tracer options \<noteq> None"
    and "GRPCOptions.Caller options \<noteq> []"
    and "CAPath options \<noteq> []" and "CertPath options \<noteq> []" and "PrivateKeyPath options \<noteq> []"
    and "transport = grpc_NewTransport (newGRPC_transportOptions options)"
    and "ioutil_ReadFile env (h @ [EvNewTransport transport]) (CAPath options) = (ca, None)"
    and "pemCertificates env ca \<noteq> []"
    and "tls_LoadX509KeyPair env (h @ [EvNewTransport transport, EvReadFile (CAPath options)])
           (CertPath options) (PrivateKeyPath options) = (clientCert, None)"
  shows "\<exists>config outbound.
           RootCAs config = pemCertificates env ca \<and>
           Certificates config = [clientCert] \<and>
           InsecureSkipVerify config = True \<and>
           outbound =
             NewOutbound transport
               (peer_Bind (roundrobin_New (NewDialer transport [grpc_DialerTLSConfig config]))
                  (peer_BindPeers (peersToIdentifiers (Addresses options)))) \<and>
           newGRPC_build env options h =
             (Inr (transport, outbound),
              h @ [EvNewTransport transport, EvReadFile (CAPath options),
                   EvLoadX509KeyPair (CertPath options) (PrivateKeyPath options),
                   EvNewDialer (NewDialer transport [grpc_DialerTLSConfig config]),
                   EvNewOutbound outbound]) \<and>
           newGRPC env options h =
             newGRPC_start env options transport outbound
               (h @ [EvNewTransport transport, EvReadFile (CAPath options),
                     EvLoadX509KeyPair (CertPath options) (PrivateKeyPath options),
                     EvNewDialer (NewDialer transport [grpc_DialerTLSConfig config]),
                     EvNewOutbound outbound])"
proof -
  let ?config = "\<lparr>RootCAs = pemCertificates env ca, Certificates = [clientCert],
                  InsecureSkipVerify = True\<rparr>"
  let ?outbound = "NewOutbound transport
               (peer_Bind (roundrobin_New (NewDialer transport [grpc_DialerTLSConfig ?config]))
                  (peer_BindPeers (peersToIdentifiers (Addresses options))))"
  have b: "newGRPC_build env options h =
             (Inr (transport, ?outbound),
              h @ [EvNewTransport transport, EvReadFile (CAPath options),
                   EvLoadX509KeyPair (CertPath options) (PrivateKeyPath options),
                   EvNewDialer (NewDialer transport [grpc_DialerTLSConfig ?config]),
                   EvNewOutbound ?outbound])"
    using assms
    by (auto simp: newGRPC_build_def AppendCertsFromPEM_def x509_NewCertPool_def Let_def)
  then have n: "newGRPC env options h =
             newGRPC_start env options transport ?outbound
               (h @ [EvNewTransport transport, EvReadFile (CAPath options),
                     EvLoadX509KeyPair (CertPath options) (PrivateKeyPath options),
                     EvNewDialer (NewDialer transport [grpc_DialerTLSConfig ?config]),
                     EvNewOutbound ?outbound])"
    by (simp add: newGRPC_def)
  show ?thesis
    by (rule exI [of _ ?config], rule exI [of _ ?outbound]) (simp add: b n)
qed

theorem newGRPC_secure_mode_tls_config_witness:
  "Addresses secure_opts \<noteq> [] \<and> Tracer secure_opts \<noteq> None \<and>
   GRPCOptions.Caller secure_opts \<noteq> [] \<and> CAPath secure_opts \<noteq> [] \<and>
   CertPath secure_opts \<noteq> [] \<and> PrivateKeyPath secure_opts \<noteq> [] \<and>
   ioutil_ReadFile (fake False False False False) [EvNewTransport transport0] ''ca.pem'' =
     ([1, 2, 3], None) \<and>
   pemCertificates (fake False False False False) [1, 2, 3] = [x509_Certificate 7] \<and>
   tls_LoadX509KeyPair (fake False False False False)
     [EvNewTransport transport0, EvReadFile ''ca.pem''] ''c.pem'' ''k.pem'' =
     (tls_Certificate 5, None) \<and>
   (\<exists>outbound.
      outbound =
        NewOutbound transport0
          (peer_Bind
             (roundrobin_New
                (NewDialer transport0
                   [grpc_DialerTLSConfig
                      \<lparr>RootCAs = [x509_Certificate 7], Certificates = [tls_Certificate 5],
                       InsecureSkipVerify = True\<rparr>]))
             (peer_BindPeers [hostport_Identify ''a:1'', hostport_Identify ''b:2''])) \<and>
      newGRPC_build (fake False False False False) secure_opts [] =
        (Inr (transport0, outbound),
         [EvNewTransport transport0, EvReadFile ''ca.pem'', EvLoadX509KeyPair ''c.pem'' ''k.pem'',
          EvNewDialer
            (NewDialer transport0
               [grpc_DialerTLSConfig
                  \<lparr>RootCAs = [x509_Certificate 7], Certificates = [tls_Certificate 5],
                   InsecureSkipVerify = True\<rparr>]),
          EvNewOutbound outbound]))"
proof -
  let ?e = "fake False False False False"
  have v: "Addresses secure_opts \<noteq> []" "Tracer secure_opts \<noteq> None"
    "GRPCOptions.Caller secure_opts \<noteq> []" "CAPath secure_opts \<noteq> []"
    "CertPath secure_opts \<noteq> []" "PrivateKeyPath secure_opts \<noteq> []"
    by (simp_all add: secure_opts_fields)
  have t: "transport0 = grpc_NewTransport (newGRPC_transportOptions secure_opts)"
    by (simp add: transportOptions_opts)
  have ca: "ioutil_ReadFile ?e ([] @ [EvNewTransport transport0]) (CAPath secure_opts) =
      ([1, 2, 3], None)"
    by (simp add: fake_def secure_opts_fields)
  have pem: "pemCertificates ?e [1, 2, 3] \<noteq> []"
    by (simp add: fake_def)
  have pem': "pemCertificates ?e [1, 2, 3] = [x509_Certificate 7]"
    by (simp add: fake_def)
  have kp: "tls_LoadX509KeyPair ?e ([] @ [EvNewTransport transport0, EvReadFile (CAPath secure_opts)])
      (CertPath secure_opts) (PrivateKeyPath secure_opts) = (tls_Certificate 5, None)"
    by (simp add: fake_def secure_opts_fields)
  from newGRPC_secure_mode_tls_config [OF v t ca pem kp]
  obtain config outbound where c: "RootCAs config = pemCertificates ?e [1, 2, 3]"
      "Certificates config = [tls_Certificate 5]" "InsecureSkipVerify config = True"
    and ob: "outbound =
             NewOutbound transport0
               (peer_Bind (roundrobin_New (NewDialer transport0 [grpc_DialerTLSConfig config]))
                  (peer_BindPeers (peersToIdentifiers (Addresses secure_opts))))"
    and b: "newGRPC_build ?e secure_opts [] =
             (Inr (transport0, outbound),
              [] @ [EvNewTransport transport0, EvReadFile (CAPath secure_opts),
                   EvLoadX509KeyPair (CertPath secure_opts) (PrivateKeyPath secure_opts),
                   EvNewDialer (NewDialer transport0 [grpc_DialerTLSConfig config]),
                   EvNewOutbound outbound])"
    by blast
  from c pem' have "config = \<lparr>RootCAs = [x509_Certificate 7], Certificates = [tls_Certificate 5],
                       InsecureSkipVerify = True\<rparr>"
    by simp
  with ob b v ca pem' kp show ?thesis
    by (simp add: secure_opts_fields)
qed

subsection \<open>Failures while starting\<close>

text \<open>
  Claim C5. Once the transport and the outbound are built: if starting the transport
  fails, \<open>newGRPC\<close> returns that error with a \<^verbatim>\<open>nil\<close> transport, and the start of the
  transport is the last event (the outbound is not started); if the transport starts and
  starting the outbound fails, \<open>newGRPC\<close> returns the outbound's error with a \<^verbatim>\<open>nil\<close>
  transport, and the transport is stopped right after, whatever that stop answers.
\<close>

theorem newGRPC_start_failures:
  assumes "newGRPC_build env options h = (Inr (transport, outbound), h')"
  shows "(Transport_Start env h' transport = Some err \<longrightarrow>
            newGRPC env options h = ((None, Some err), h' @ [EvTransportStart transport])) \<and>
         (Transport_Start env h' transport = None \<and>
          Outbound_Start env (h' @ [EvTransportStart transport]) outbound = Some err \<longrightarrow>
            newGRPC env options h =
              ((None, Some err),
               h' @ [EvTransportStart transport, EvOutboundStart outbound,
                     EvTransportStop transport]))"
  using assms by (simp add: newGRPC_def newGRPC_start_def)

theorem newGRPC_start_failures_witness:
  "newGRPC_build (fake True False False False) opts [] =
     (Inr (transport0, outbound0), [EvNewTransport transport0, EvNewOutbound outbound0]) \<and>
   Transport_Start (fake True False False False)
     [EvNewTransport transport0, EvNewOutbound outbound0] transport0 = Some (New ''transport start'') \<and>
   newGRPC (fake True False False False) opts [] =
     ((None, Some (New ''transport start'')),
      [EvNewTransport transport0, EvNewOutbound outbound0, EvTransportStart transport0]) \<and>
   newGRPC_build (fake False True True False) opts [] =
     (Inr (transport0, outbound0), [EvNewTransport transport0, EvNewOutbound outbound0]) \<and>
   Transport_Start (fake False True True False)
     [EvNewTransport transport0, EvNewOutbound outbound0] transport0 = None \<and>
   Outbound_Start (fake False True True False)
     ([EvNewTransport transport0, EvNewOutbound outbound0] @ [EvTransportStart transport0])
     outbound0 = Some (New ''outbound start'') \<and>
   newGRPC (fake False True True False) opts [] =
     ((None, Some (New ''outbound start'')),
      [EvNewTransport transport0, EvNewOutbound outbound0, EvTransportStart transport0,
       EvOutboundStart outbound0, EvTransportStop transport0])"
proof -
  have b: "newGRPC_build (fake x y z w) opts [] =
     (Inr (transport0, outbound0), [EvNewTransport transport0, EvNewOutbound outbound0])" for x y z w
    by (simp add: newGRPC_build_def opts_fields transportOptions_opts outbound0_def Let_def)
  have s: "Transport_Start (fake True False False False)
     [EvNewTransport transport0, EvNewOutbound outbound0] transport0 = Some (New ''transport start'')"
    "Transport_Start (fake False True True False)
     [EvNewTransport transport0, EvNewOutbound outbound0] transport0 = None"
    "Outbound_Start (fake False True True False)
     ([EvNewTransport transport0, EvNewOutbound outbound0] @ [EvTransportStart transport0])
     outbound0 = Some (New ''outbound start'')"
    by (simp_all add: fake_def)
  show ?thesis
    using b s
      newGRPC_start_failures [OF b, of True False False False "New ''transport start''"]
      newGRPC_start_failures [OF b, of False True True False "New ''outbound start''"]
    by simp
qed

subsection \<open>Close\<close>

text \<open>
  Claim C6. \<open>Close\<close> stops the transport and then the outbound, whatever the first stop
  answered, and returns \<^verbatim>\<open>multierr.Combine\<close> of the two answers: \<^verbatim>\<open>nil\<close> exactly when
  both stops succeed, and an aggregate that lists every stop failure, the transport's before
  the outbound's, otherwise (both of them when both fail).
\<close>

theorem Close_stops_both:
  assumes "Transport_Stop env h (Transport t) = err1"
    and "Outbound_Stop env (h @ [EvTransportStop (Transport t)]) (Outbound t) = err2"
  shows "Close env (Some t) h =
           (Return (multierr_Combine [err1, err2]),
            h @ [EvTransportStop (Transport t), EvOutboundStop (Outbound t)]) \<and>
         (multierr_Combine [err1, err2] = None \<longleftrightarrow> err1 = None \<and> err2 = None) \<and>
         multierr_Errors (multierr_Combine [err1, err2]) = multierr_Errors err1 @ multierr_Errors err2 \<and>
         (\<forall>e e'. err1 = Some e \<and> err2 = Some e' \<longrightarrow>
            multierr_Combine [err1, err2] = Some (multiError (extractErrors e @ extractErrors e')))"
  using assms by (cases err1; cases err2) (auto simp: Close_def multierr_Combine_def)

theorem Close_stops_both_witness:
  "Transport_Stop (fake False False True True) [] (Transport tr0) = Some (New ''transport stop'') \<and>
   Outbound_Stop (fake False False True True) ([] @ [EvTransportStop (Transport tr0)]) (Outbound tr0) =
     Some (New ''outbound stop'') \<and>
   Close (fake False False True True) (Some tr0) [] =
     (Return (Some (multiError [New ''transport stop'', New ''outbound stop''])),
      [EvTransportStop (Transport tr0), EvOutboundStop (Outbound tr0)])"
proof -
  have a: "Transport_Stop (fake False False True True) [] (Transport tr0) = Some (New ''transport stop'')"
    by (simp add: fake_def)
  have b: "Outbound_Stop (fake False False True True) ([] @ [EvTransportStop (Transport tr0)]) (Outbound tr0) =
     Some (New ''outbound stop'')"
    by (simp add: fake_def)
  show ?thesis
    using a b Close_stops_both [OF a b] by simp
qed

subsection \<open>Translating the response\<close>

text \<open>
  Claim C7. For a wire response, the headers of the returned \<open>Response\<close> are the
  \<open>Items\<close> of the wire headers, a list in their order. Without a body stream the body
  is empty and nothing is read. With a body stream the stream is read to its end and then
  closed: a read error is returned with a \<^verbatim>\<open>nil\<close> response (the close is then not
  reached), a close error is returned with a \<^verbatim>\<open>nil\<close> response, and when both succeed
  the body of the \<open>Response\<close> is the bytes that were read.
\<close>

theorem yarpcResponseToResponse_cases:
  "(transport_Response.Body tr = None \<longrightarrow>
      yarpcResponseToResponse env (Some tr) h =
        (Return (Some \<lparr>Response.Headers = Items (transport_Response.Headers tr),
                       Response.Body = []\<rparr>, None), h)) \<and>
   (transport_Response.Body tr = Some stream \<and>
    ioutil_ReadAll env h stream = (body, Some err) \<longrightarrow>
      yarpcResponseToResponse env (Some tr) h =
        (Return (None, Some err), h @ [EvReadAll stream])) \<and>
   (transport_Response.Body tr = Some stream \<and>
    ioutil_ReadAll env h stream = (body, None) \<and>
    Body_Close env (h @ [EvReadAll stream]) stream = Some err \<longrightarrow>
      yarpcResponseToResponse env (Some tr) h =
        (Return (None, Some err), h @ [EvReadAll stream, EvClose stream])) \<and>
   (transport_Response.Body tr = Some stream \<and>
    ioutil_ReadAll env h stream = (body, None) \<and>
    Body_Close env (h @ [EvReadAll stream]) stream = None \<longrightarrow>
      yarpcResponseToResponse env (Some tr) h =
        (Return (Some \<lparr>Response.Headers = Items (transport_Response.Headers tr),
                       Response.Body = body\<rparr>, None),
         h @ [EvReadAll stream, EvClose stream]))"
  by (simp add: yarpcResponseToResponse_def)

theorem yarpcResponseToResponse_cases_witness:
  "transport_Response.Body
     \<lparr>transport_Response.Headers = transport_Headers [(''a'', ''1''), (''b'', ''2'')],
      transport_Response.Body = None\<rparr> = None \<and>
   yarpcResponseToResponse (fake False False False False)
     (Some \<lparr>transport_Response.Headers = transport_Headers [(''a'', ''1''), (''b'', ''2'')],
            transport_Response.Body = None\<rparr>) [] =
     (Return (Some \<lparr>Response.Headers = [(''a'', ''1''), (''b'', ''2'')], Response.Body = []\<rparr>, None), []) \<and>
   ioutil_ReadAll (fake False False False False) [] (ReadCloser 2) = ([10], Some (New ''read'')) \<and>
   yarpcResponseToResponse (fake False False False False)
     (Some \<lparr>transport_Response.Headers = transport_Headers [(''a'', ''1''), (''b'', ''2'')],
            transport_Response.Body = Some (ReadCloser 2)\<rparr>) [] =
     (Return (None, Some (New ''read'')), [EvReadAll (ReadCloser 2)]) \<and>
   ioutil_ReadAll (fake False False False False) [] (ReadCloser 1) = ([10, 20, 30], None) \<and>
   Body_Close (fake False False False False) ([] @ [EvReadAll (ReadCloser 1)]) (ReadCloser 1) = None \<and>
   yarpcResponseToResponse (fake False False False False)
     (Some \<lparr>transport_Response.Headers = transport_Headers [(''a'', ''1''), (''b'', ''2'')],
            transport_Response.Body = Some (ReadCloser 1)\<rparr>) [] =
     (Return (Some \<lparr>Response.Headers = [(''a'', ''1''), (''b'', ''2'')],
                    Response.Body = [10, 20, 30]\<rparr>, None),
      [EvReadAll (ReadCloser 1), EvClose (ReadCloser 1)]) \<and>
   ioutil_ReadAll (fake False False False False\<lparr>Body_Close := \<lambda>h b. Some (New ''close'')\<rparr>) []
     (ReadCloser 1) = ([10, 20, 30], None) \<and>
   Body_Close (fake False False False False\<lparr>Body_Close := \<lambda>h b. Some (New ''close'')\<rparr>)
     ([] @ [EvReadAll (ReadCloser 1)]) (ReadCloser 1) = Some (New ''close'') \<and>
   yarpcResponseToResponse (fake False False False False\<lparr>Body_Close := \<lambda>h b. Some (New ''close'')\<rparr>)
     (Some \<lparr>transport_Response.Headers = transport_Headers [(''a'', ''1''), (''b'', ''2'')],
            transport_Response.Body = Some (ReadCloser 1)\<rparr>) [] =
     (Return (None, Some (New ''close'')), [EvReadAll (ReadCloser 1), EvClose (ReadCloser 1)])"
proof -
  let ?e = "fake False False False False"
  let ?e' = "fake False False False False\<lparr>Body_Close := \<lambda>h b. Some (New ''close'')\<rparr>"
  let ?hd = "transport_Headers [(''a'', ''1''), (''b'', ''2'')]"
  have r2: "ioutil_ReadAll ?e [] (ReadCloser 2) = ([10], Some (New ''read''))"
    by (simp add: fake_def)
  have r1: "ioutil_ReadAll ?e [] (ReadCloser 1) = ([10, 20, 30], None)"
    by (simp add: fake_def)
  have c1: "Body_Close ?e ([] @ [EvReadAll (ReadCloser 1)]) (ReadCloser 1) = None"
    by (simp add: fake_def)
  have r1': "ioutil_ReadAll ?e' [] (ReadCloser 1) = ([10, 20, 30], None)"
    by (simp add: fake_def)
  have c1': "Body_Close ?e' ([] @ [EvReadAll (ReadCloser 1)]) (ReadCloser 1) = Some (New ''close'')"
    by simp
  show ?thesis
    using r2 r1 c1 r1' c1'
      yarpcResponseToResponse_cases [of
        "\<lparr>transport_Response.Headers = ?hd, transport_Response.Body = None\<rparr>"
        ?e "[]" "ReadCloser 1" "[]" "New ''x''"]
      yarpcResponseToResponse_cases [of
        "\<lparr>transport_Response.Headers = ?hd, transport_Response.Body = Some (ReadCloser 2)\<rparr>"
        ?e "[]" "ReadCloser 2" "[10]" "New ''read''"]
      yarpcResponseToResponse_cases [of
        "\<lparr>transport_Response.Headers = ?hd, transport_Response.Body = Some (ReadCloser 1)\<rparr>"
        ?e "[]" "ReadCloser 1" "[10, 20, 30]" "New ''x''"]
      yarpcResponseToResponse_cases [of
        "\<lparr>transport_Response.Headers = ?hd, transport_Response.Body = Some (ReadCloser 1)\<rparr>"
        ?e' "[]" "ReadCloser 1" "[10, 20, 30]" "New ''close''"]
    by simp
qed

subsection \<open>Streaming\<close>

text \<open>
  Claim C8. \<open>requestToYARPCStreamRequest\<close> returns \<^verbatim>\<open>nil\<close>, and no error, exactly when
  the receiver, the stream request or its inner request is \<^verbatim>\<open>nil\<close>; any inner request is
  translated as it is, an empty service or method included. \<open>CallStream\<close> on a receiver
  makes one call of the stream outbound with the translated request, validating nothing,
  and returns the pair that the outbound answers.
\<close>

theorem requestToYARPCStreamRequest_nil_and_CallStream:
  "(requestToYARPCStreamRequest env t streamRequest = None \<longleftrightarrow>
      t = None \<or> streamRequest = None \<or> (\<exists>sr. streamRequest = Some sr \<and> Request sr = None)) \<and>
   (\<forall>r. streamRequest = Some \<lparr>Request = Some r\<rparr> \<longrightarrow>
      (\<exists>meta. requestToYARPCStreamRequest env (Some tr) streamRequest = Some \<lparr>Meta = Some meta\<rparr> \<and>
         transport_RequestMeta.Service meta = TargetService r \<and>
         transport_RequestMeta.Procedure meta = Method r)) \<and>
   CallStream env (Some tr) ctx streamRequest h =
     (Return (Outbound_CallStream env h (StreamOutbound tr) ctx
                (requestToYARPCStreamRequest env (Some tr) streamRequest)),
      h @ [EvCallStream (StreamOutbound tr) ctx
             (requestToYARPCStreamRequest env (Some tr) streamRequest)])"
proof (intro conjI allI impI)
  show "requestToYARPCStreamRequest env t streamRequest = None \<longleftrightarrow>
      t = None \<or> streamRequest = None \<or> (\<exists>sr. streamRequest = Some sr \<and> Request sr = None)"
    by (auto simp: requestToYARPCStreamRequest_def split: option.splits)
next
  fix r
  assume "streamRequest = Some \<lparr>Request = Some r\<rparr>"
  then show "\<exists>meta. requestToYARPCStreamRequest env (Some tr) streamRequest = Some \<lparr>Meta = Some meta\<rparr> \<and>
         transport_RequestMeta.Service meta = TargetService r \<and>
         transport_RequestMeta.Procedure meta = Method r"
    by (simp add: requestToYARPCStreamRequest_def)
next
  show "CallStream env (Some tr) ctx streamRequest h =
     (Return (Outbound_CallStream env h (StreamOutbound tr) ctx
                (requestToYARPCStreamRequest env (Some tr) streamRequest)),
      h @ [EvCallStream (StreamOutbound tr) ctx
             (requestToYARPCStreamRequest env (Some tr) streamRequest)])"
    by (simp add: CallStream_def Let_def)
qed

theorem requestToYARPCStreamRequest_nil_and_CallStream_witness:
  "requestToYARPCStreamRequest (fake False False False False) None (Some \<lparr>Request = Some req\<rparr>) = None \<and>
   requestToYARPCStreamRequest (fake False False False False) (Some tr0) None = None \<and>
   requestToYARPCStreamRequest (fake False False False False) (Some tr0) (Some \<lparr>Request = None\<rparr>) = None \<and>
   CallStream (fake False False False False) (Some tr0) (CallerContext None)
     (Some \<lparr>Request = None\<rparr>) [] =
     (Return (None, Some (New ''no request'')),
      [EvCallStream (StreamOutbound tr0) (CallerContext None) None]) \<and>
   (\<exists>meta. CallStream (fake False False False False) (Some tr0) (CallerContext None)
       (Some \<lparr>Request = Some (req\<lparr>TargetService := [], Method := []\<rparr>)\<rparr>) [] =
       (Return (Some (ClientStream 1), None),
        [EvCallStream (StreamOutbound tr0) (CallerContext None) (Some \<lparr>Meta = Some meta\<rparr>)]) \<and>
      transport_RequestMeta.Service meta = [] \<and> transport_RequestMeta.Procedure meta = [])"
proof -
  let ?e = "fake False False False False"
  let ?r = "req\<lparr>TargetService := [], Method := []\<rparr>"
  have cs: "Outbound_CallStream ?e h ob c None = (None, Some (New ''no request''))"
           "Outbound_CallStream ?e h ob c (Some s) = (Some (ClientStream 1), None)" for h ob c s
    by (simp_all add: fake_def)
  show ?thesis
    using cs
      requestToYARPCStreamRequest_nil_and_CallStream [of ?e None "Some \<lparr>Request = Some req\<rparr>" tr0
        "CallerContext None" "[]"]
      requestToYARPCStreamRequest_nil_and_CallStream [of ?e "Some tr0" None tr0 "CallerContext None" "[]"]
      requestToYARPCStreamRequest_nil_and_CallStream [of ?e "Some tr0" "Some \<lparr>Request = None\<rparr>" tr0
        "CallerContext None" "[]"]
      requestToYARPCStreamRequest_nil_and_CallStream [of ?e "Some tr0" "Some \<lparr>Request = Some ?r\<rparr>" tr0
        "CallerContext None" "[]"]
    by auto
qed

subsection \<open>Failures while loading the TLS material\<close>

text \<open>
  Claim C9. With valid options whose three TLS paths are all non-empty, \<open>newGRPC\<close>
  returns a \<^verbatim>\<open>nil\<close> transport and an error when the CA file cannot be read (message
  \<open>could not load ca\<close> followed by the cause), when the CA bytes hold no certificate
  (\<open>failed to append ca\<close>), and when the key pair does not load (\<open>failed to load X509
  keypair\<close> followed by the cause). In each case the history ends with the failed
  load: no dialer and no outbound is made, and nothing is started.
\<close>

theorem newGRPC_tls_load_failures:
  assumes "Addresses options \<noteq> []" and "Tracer options \<noteq> None"
    and "GRPCOptions.Caller options \<noteq> []"
    and "CAPath options \<noteq> []" and "CertPath options \<noteq> []" and "PrivateKeyPath options \<noteq> []"
    and "transport = grpc_NewTransport (newGRPC_transportOptions options)"
  shows "(ioutil_ReadFile env (h @ [EvNewTransport transport]) (CAPath options) = (ca, Some err) \<longrightarrow>
            newGRPC env options h =
              ((None, Some (New (''could not load ca '' @ Error err))),
               h @ [EvNewTransport transport, EvReadFile (CAPath options)])) \<and>
         (ioutil_ReadFile env (h @ [EvNewTransport transport]) (CAPath options) = (ca, None) \<and>
          pemCertificates env ca = [] \<longrightarrow>
            newGRPC env options h =
              ((None, Some (New ''failed to append ca'')),
               h @ [EvNewTransport transport, EvReadFile (CAPath options)])) \<and>
         (ioutil_ReadFile env (h @ [EvNewTransport transport]) (CAPath options) = (ca, None) \<and>
          pemCertificates env ca \<noteq> [] \<and>
          tls_LoadX509KeyPair env (h @ [EvNewTransport transport, EvReadFile (CAPath options)])
            (CertPath options) (PrivateKeyPath options) = (clientCert, Some err) \<longrightarrow>
            newGRPC env options h =
              ((None, Some (New (''failed to load X509 keypair '' @ Error err))),
               h @ [EvNewTransport transport, EvReadFile (CAPath options),
                    EvLoadX509KeyPair (CertPath options) (PrivateKeyPath options)]))"
  using assms
  by (auto simp: newGRPC_def newGRPC_build_def AppendCertsFromPEM_def x509_NewCertPool_def Let_def)

theorem newGRPC_tls_load_failures_witness:
  "ioutil_ReadFile (fake False False False False) ([] @ [EvNewTransport transport0])
     (CAPath (secure_opts\<lparr>CAPath := ''missing.pem''\<rparr>)) = ([], Some (New ''no such file'')) \<and>
   newGRPC (fake False False False False) (secure_opts\<lparr>CAPath := ''missing.pem''\<rparr>) [] =
     ((None, Some (New ''could not load ca no such file'')),
      [EvNewTransport transport0, EvReadFile ''missing.pem'']) \<and>
   ioutil_ReadFile (fake False False False False) ([] @ [EvNewTransport transport0])
     (CAPath (secure_opts\<lparr>CAPath := ''bad.pem''\<rparr>)) = ([9], None) \<and>
   pemCertificates (fake False False False False) [9] = [] \<and>
   newGRPC (fake False False False False) (secure_opts\<lparr>CAPath := ''bad.pem''\<rparr>) [] =
     ((None, Some (New ''failed to append ca'')),
      [EvNewTransport transport0, EvReadFile ''bad.pem'']) \<and>
   ioutil_ReadFile (fake False False False False) ([] @ [EvNewTransport transport0])
     (CAPath (secure_opts\<lparr>CertPath := ''x.pem''\<rparr>)) = ([1, 2, 3], None) \<and>
   pemCertificates (fake False False False False) [1, 2, 3] \<noteq> [] \<and>
   tls_LoadX509KeyPair (fake False False False False)
     ([] @ [EvNewTransport transport0, EvReadFile (CAPath (secure_opts\<lparr>CertPath := ''x.pem''\<rparr>))])
     (CertPath (secure_opts\<lparr>CertPath := ''x.pem''\<rparr>))
     (PrivateKeyPath (secure_opts\<lparr>CertPath := ''x.pem''\<rparr>)) =
     (tls_Certificate 0, Some (New ''bad pair'')) \<and>
   newGRPC (fake False False False False) (secure_opts\<lparr>CertPath := ''x.pem''\<rparr>) [] =
     ((None, Some (New ''failed to load X509 keypair bad pair'')),
      [EvNewTransport transport0, EvReadFile ''ca.pem'', EvLoadX509KeyPair ''x.pem'' ''k.pem''])"
proof -
  let ?e = "fake False False False False"
  let ?o1 = "secure_opts\<lparr>CAPath := ''missing.pem''\<rparr>"
  let ?o2 = "secure_opts\<lparr>CAPath := ''bad.pem''\<rparr>"
  let ?o3 = "secure_opts\<lparr>CertPath := ''x.pem''\<rparr>"
  have v1: "Addresses ?o1 \<noteq> []" "Tracer ?o1 \<noteq> None" "GRPCOptions.Caller ?o1 \<noteq> []"
    "CAPath ?o1 \<noteq> []" "CertPath ?o1 \<noteq> []" "PrivateKeyPath ?o1 \<noteq> []"
    "transport0 = grpc_NewTransport (newGRPC_transportOptions ?o1)"
    by (simp_all add: secure_opts_def opts_def newGRPC_transportOptions_def transport0_def)
  have v2: "Addresses ?o2 \<noteq> []" "Tracer ?o2 \<noteq> None" "GRPCOptions.Caller ?o2 \<noteq> []"
    "CAPath ?o2 \<noteq> []" "CertPath ?o2 \<noteq> []" "PrivateKeyPath ?o2 \<noteq> []"
    "transport0 = grpc_NewTransport (newGRPC_transportOptions ?o2)"
    by (simp_all add: secure_opts_def opts_def newGRPC_transportOptions_def transport0_def)
  have v3: "Addresses ?o3 \<noteq> []" "Tracer ?o3 \<noteq> None" "GRPCOptions.Caller ?o3 \<noteq> []"
    "CAPath ?o3 \<noteq> []" "CertPath ?o3 \<noteq> []" "PrivateKeyPath ?o3 \<noteq> []"
    "transport0 = grpc_NewTransport (newGRPC_transportOptions ?o3)"
    by (simp_all add: secure_opts_def opts_def newGRPC_transportOptions_def transport0_def)
  have a: "ioutil_ReadFile ?e ([] @ [EvNewTransport transport0]) (CAPath ?o1) =
      ([], Some (New ''no such file''))"
    "ioutil_ReadFile ?e ([] @ [EvNewTransport transport0]) (CAPath ?o2) = ([9], None)"
    "pemCertificates ?e [9] = []"
    "ioutil_ReadFile ?e ([] @ [EvNewTransport transport0]) (CAPath ?o3) = ([1, 2, 3], None)"
    "pemCertificates ?e [1, 2, 3] \<noteq> []"
    "tls_LoadX509KeyPair ?e ([] @ [EvNewTransport transport0, EvReadFile (CAPath ?o3)])
       (CertPath ?o3) (PrivateKeyPath ?o3) = (tls_Certificate 0, Some (New ''bad pair''))"
    by (simp_all add: fake_def secure_opts_def)
  show ?thesis
    using a
      newGRPC_tls_load_failures [OF v1, of ?e "[]" "[]" "New ''no such file''" "tls_Certificate 0"]
      newGRPC_tls_load_failures [OF v2, of ?e "[]" "[9]" "New ''x''" "tls_Certificate 0"]
      newGRPC_tls_load_failures [OF v3, of ?e "[]" "[1, 2, 3]" "New ''bad pair''" "tls_Certificate 0"]
    by (simp add: secure_opts_def)
qed

subsection \<open>Incomplete TLS fields\<close>

text \<open>
  Claim C10. With valid options of which at least one TLS path is empty (whatever the
  other two are), \<open>newGRPC\<close> reads no file and makes no dialer: the outbound is built on
  the base transport itself, no error comes from the TLS fields, and when both starts
  succeed the transport is returned without error.
\<close>

theorem newGRPC_partial_tls_is_plaintext:
  assumes "Addresses options \<noteq> []" and "Tracer options \<noteq> None"
    and "GRPCOptions.Caller options \<noteq> []"
    and "CAPath options = [] \<or> CertPath options = [] \<or> PrivateKeyPath options = []"
    and "transport = grpc_NewTransport (newGRPC_transportOptions options)"
    and "outbound =
           NewOutbound transport
             (peer_Bind (roundrobin_New (BaseTransport transport))
                (peer_BindPeers (peersToIdentifiers (Addresses options))))"
  shows "newGRPC_build env options h =
           (Inr (transport, outbound), h @ [EvNewTransport transport, EvNewOutbound outbound]) \<and>
         newGRPC env options h =
           newGRPC_start env options transport outbound
             (h @ [EvNewTransport transport, EvNewOutbound outbound]) \<and>
         (Transport_Start env (h @ [EvNewTransport transport, EvNewOutbound outbound]) transport = None \<and>
          Outbound_Start env
            (h @ [EvNewTransport transport, EvNewOutbound outbound, EvTransportStart transport])
            outbound = None \<longrightarrow>
            (\<exists>t. newGRPC env options h =
                   ((Some t, None),
                    h @ [EvNewTransport transport, EvNewOutbound outbound,
                         EvTransportStart transport, EvOutboundStart outbound]) \<and>
                 Transport t = transport \<and> Outbound t = outbound \<and> StreamOutbound t = outbound))"
proof -
  have b: "newGRPC_build env options h =
           (Inr (transport, outbound), h @ [EvNewTransport transport, EvNewOutbound outbound])"
    using assms by (auto simp: newGRPC_build_def Let_def)
  then have n: "newGRPC env options h =
           newGRPC_start env options transport outbound
             (h @ [EvNewTransport transport, EvNewOutbound outbound])"
    by (simp add: newGRPC_def)
  show ?thesis
    by (simp add: b n) (simp add: newGRPC_start_def)
qed

theorem newGRPC_partial_tls_is_plaintext_witness:
  "Addresses (secure_opts\<lparr>PrivateKeyPath := []\<rparr>) \<noteq> [] \<and>
   Tracer (secure_opts\<lparr>PrivateKeyPath := []\<rparr>) \<noteq> None \<and>
   GRPCOptions.Caller (secure_opts\<lparr>PrivateKeyPath := []\<rparr>) \<noteq> [] \<and>
   CAPath (secure_opts\<lparr>PrivateKeyPath := []\<rparr>) \<noteq> [] \<and>
   CertPath (secure_opts\<lparr>PrivateKeyPath := []\<rparr>) \<noteq> [] \<and>
   PrivateKeyPath (secure_opts\<lparr>PrivateKeyPath := []\<rparr>) = [] \<and>
   newGRPC_build (fake False False False False) (secure_opts\<lparr>PrivateKeyPath := []\<rparr>) [] =
     (Inr (transport0, outbound0), [EvNewTransport transport0, EvNewOutbound outbound0]) \<and>
   (\<exists>t. newGRPC (fake False False False False) (secure_opts\<lparr>PrivateKeyPath := []\<rparr>) [] =
          ((Some t, None),
           [EvNewTransport transport0, EvNewOutbound outbound0, EvTransportStart transport0,
            EvOutboundStart outbound0]) \<and>
        Transport t = transport0 \<and> Outbound t = outbound0 \<and> StreamOutbound t = outbound0)"
proof -
  let ?e = "fake False False False False"
  let ?o = "secure_opts\<lparr>PrivateKeyPath := []\<rparr>"
  have v: "Addresses ?o \<noteq> []" "Tracer ?o \<noteq> None" "GRPCOptions.Caller ?o \<noteq> []"
    by (simp_all add: secure_opts_def opts_def)
  have p: "CAPath ?o = [] \<or> CertPath ?o = [] \<or> PrivateKeyPath ?o = []"
    by simp
  have q: "CAPath ?o \<noteq> []" "CertPath ?o \<noteq> []" "PrivateKeyPath ?o = []"
    by (simp_all add: secure_opts_def)
  have t: "transport0 = grpc_NewTransport (newGRPC_transportOptions ?o)"
    by (simp add: secure_opts_def opts_def newGRPC_transportOptions_def transport0_def)
  have ob: "outbound0 =
           NewOutbound transport0
             (peer_Bind (roundrobin_New (BaseTransport transport0))
                (peer_BindPeers (peersToIdentifiers (Addresses ?o))))"
    by (simp add: secure_opts_def opts_def outbound0_def)
  have s: "Transport_Start ?e ([] @ [EvNewTransport transport0, EvNewOutbound outbound0]) transport0 = None"
    "Outbound_Start ?e
       ([] @ [EvNewTransport transport0, EvNewOutbound outbound0, EvTransportStart transport0])
       outbound0 = None"
    by (simp_all add: fake_def)
  note T = newGRPC_partial_tls_is_plaintext [OF v p t ob, of ?e "[]"]
  from T have b: "newGRPC_build ?e ?o [] =
      (Inr (transport0, outbound0), [] @ [EvNewTransport transport0, EvNewOutbound outbound0])"
    by blast
  from T s have n: "\<exists>t. newGRPC ?e ?o [] =
          ((Some t, None),
           [] @ [EvNewTransport transport0, EvNewOutbound outbound0, EvTransportStart transport0,
            EvOutboundStart outbound0]) \<and>
        Transport t = transport0 \<and> Outbound t = outbound0 \<and> StreamOutbound t = outbound0"
    by blast
  from v q b n show ?thesis
    by simp
qed

end
